theory Spec2Isabelle
  imports Complex_Main "HOL-Library.AList"
begin

section \<open>JSON values and Python dictionaries\<close>

text \<open>
  The program (\<^verbatim>\<open>src/club_api.py\<close>) handles the documents that \<^verbatim>\<open>resp.json()\<close> returns:
  Python values built from \<^verbatim>\<open>None\<close>, booleans, numbers, strings, lists and dicts
  with string keys. A dict is an association list in insertion order; a well-formed
  dict has pairwise distinct keys. A float is represented by its real value.
\<close>

datatype json =
    JNull
  | JBool bool
  | JInt int
  | JFloat real
  | JStr string
  | JList "json list"
  | JDict "(string \<times> json) list"

type_synonym dict = "(string \<times> json) list"

text \<open>Python truthiness, as used by \<^verbatim>\<open>x or {}\<close> and \<^verbatim>\<open>if not x\<close>.\<close>

fun truthy :: "json \<Rightarrow> bool" where
  "truthy JNull = False"
| "truthy (JBool b) = b"
| "truthy (JInt i) = (i \<noteq> 0)"
| "truthy (JFloat r) = (r \<noteq> 0)"
| "truthy (JStr s) = (s \<noteq> [])"
| "truthy (JList xs) = (xs \<noteq> [])"
| "truthy (JDict d) = (d \<noteq> [])"

text \<open>\<^verbatim>\<open>a or b\<close>\<close>

definition py_or :: "json \<Rightarrow> json \<Rightarrow> json" where
  "py_or a b = (if truthy a then a else b)"

text \<open>
  Storing the pairs \<open>items\<close> into the dict \<open>d\<close> one after the other, left to right:
  a key already present keeps its position and takes the new value, a new key is
  appended. \<^verbatim>\<open>dict(items)\<close> starts from the empty dict.
\<close>

definition dict_update :: "(string \<times> 'v) list \<Rightarrow> (string \<times> 'v) list \<Rightarrow> (string \<times> 'v) list" where
  "dict_update d items = fold (\<lambda>(k, v). AList.update k v) items d"

definition py_dict :: "(string \<times> 'v) list \<Rightarrow> (string \<times> 'v) list" where
  "py_dict items = dict_update [] items"

text \<open>\<^verbatim>\<open>d.get(key, default)\<close> on a dict.\<close>

definition dict_get :: "dict \<Rightarrow> string \<Rightarrow> json \<Rightarrow> json" where
  "dict_get d key dflt = (case map_of d key of Some v \<Rightarrow> v | None \<Rightarrow> dflt)"

datatype error =
    ValueError
  | Exception string int
  | AttributeError
  | TypeError
  | JSONDecodeError
  | ConnectionError

text \<open>
  \<^verbatim>\<open>x.get(key, default)\<close> on any value: only a dict has the method; on every other
  JSON value the attribute lookup raises \<^verbatim>\<open>AttributeError\<close>.
\<close>

definition py_get :: "json \<Rightarrow> string \<Rightarrow> json \<Rightarrow> error + json" where
  "py_get x key dflt =
     (case x of JDict d \<Rightarrow> Inr (dict_get d key dflt) | _ \<Rightarrow> Inl AttributeError)"

definition startswith :: "string \<Rightarrow> string \<Rightarrow> bool" where
  "startswith s p = (take (length p) s = p)"

section \<open>ClubMember\<close>

subsection \<open>flatten_dict\<close>

text \<open>
  \<^verbatim>\<open>new_key = f"{parent_key}{sep}{k}" if parent_key else k\<close>
\<close>

definition new_key :: "string \<Rightarrow> string \<Rightarrow> string \<Rightarrow> string" where
  "new_key parent_key sep k = (if parent_key \<noteq> [] then parent_key @ sep @ k else k)"

text \<open>
  \<open>flatten_items\<close> is the loop of \<^verbatim>\<open>flatten_dict\<close>: the list \<^verbatim>\<open>items\<close> after the
  entries of \<open>d\<close> have been visited in order, a nested dict contributing the items of
  its own flattening and any other value one pair. \<open>flatten_dict\<close> returns
  \<^verbatim>\<open>dict(items)\<close>.
\<close>

fun flatten_items :: "dict \<Rightarrow> string \<Rightarrow> string \<Rightarrow> dict"
  and flatten_dict :: "dict \<Rightarrow> string \<Rightarrow> string \<Rightarrow> dict" where
  "flatten_items [] parent_key sep = []"
| "flatten_items ((k, v) # rest) parent_key sep =
     (case v of
        JDict d' \<Rightarrow> flatten_dict d' (new_key parent_key sep k) sep
      | _ \<Rightarrow> [(new_key parent_key sep k, v)])
     @ flatten_items rest parent_key sep"
| "flatten_dict d parent_key sep = py_dict (flatten_items d parent_key sep)"

subsection \<open>The member record\<close>

record ClubMember =
  raw_membership :: dict
  raw_user :: dict
  user_id :: json
  stats :: json
  peak_rating :: json

text \<open>
  \<^verbatim>\<open>ClubMember.__init__(data)\<close>: \<^verbatim>\<open>data.items()\<close> needs a dict, and so does
  \<^verbatim>\<open>self.raw_user.get\<close> for the value stored under \<^verbatim>\<open>"user"\<close>.
\<close>

definition ClubMember_init :: "json \<Rightarrow> error + ClubMember" where
  "ClubMember_init data =
     (case data of
        JDict d \<Rightarrow>
          (case dict_get d ''user'' (JDict []) of
             JDict u \<Rightarrow>
               Inr \<lparr> raw_membership = py_dict (filter (\<lambda>(k, v). k \<noteq> ''user'') d),
                     raw_user = u,
                     user_id = dict_get u ''userId'' (JStr []),
                     stats = JDict [],
                     peak_rating = JDict [] \<rparr>
           | _ \<Rightarrow> Inl AttributeError)
      | _ \<Rightarrow> Inl AttributeError)"

definition nick :: "ClubMember \<Rightarrow> json" where
  "nick self = dict_get (raw_user self) ''nick'' (JStr [])"

definition update_stats :: "ClubMember \<Rightarrow> json \<Rightarrow> ClubMember" where
  "update_stats self s = self\<lparr>stats := py_or s (JDict [])\<rparr>"

definition update_peak_rating :: "ClubMember \<Rightarrow> json \<Rightarrow> ClubMember" where
  "update_peak_rating self rating = self\<lparr>peak_rating := py_or rating (JDict [])\<rparr>"

text \<open>
  \<^verbatim>\<open>to_dict\<close>: the four sections are flattened with the default separator, then merged
  by \<^verbatim>\<open>{**base_user, **base_membership, **flat_stats, **flat_rating}\<close>. A stored
  \<^verbatim>\<open>stats\<close> or \<^verbatim>\<open>peak_rating\<close> that is not a dict has no \<^verbatim>\<open>items\<close>.
\<close>

definition to_dict :: "ClubMember \<Rightarrow> error + dict" where
  "to_dict self =
     (let base_user = flatten_dict (raw_user self) ''user'' ''.'';
          base_membership = flatten_dict (raw_membership self) ''membership'' ''.''
      in case stats self of
           JDict s \<Rightarrow>
             (let flat_stats = flatten_dict s ''stats'' ''.''
              in case peak_rating self of
                   JDict p \<Rightarrow>
                     (let flat_rating = flatten_dict p ''peakRating'' ''.''
                      in Inr (dict_update (dict_update (dict_update (py_dict base_user)
                                base_membership) flat_stats) flat_rating))
                 | _ \<Rightarrow> Inl AttributeError)
         | _ \<Rightarrow> Inl AttributeError)"

section \<open>GeoGuessrClubAPI\<close>

text \<open>
  What the program does to the outside is recorded as a trace of events. The outside
  itself is a parameter: the value of the environment variable, what
  \<^verbatim>\<open>session.get(url)\<close> answers (a response, or an exception of the HTTP library)
  given the session and the trace so far, and Python's \<^verbatim>\<open>str\<close> on values that are
  not strings. A response carries its status code and what \<^verbatim>\<open>resp.json()\<close> returns,
  \<open>None\<close> when the body does not parse.
\<close>

datatype event =
    SessionCreated
  | HttpGet string
  | Printed
  | Slept
  | CsvWritten string "dict list"

record response =
  status_code :: int
  json_body :: "json option"

record http_session =
  cookies :: "(string \<times> string \<times> string) list"
  headers :: "(string \<times> string) list"

record GeoGuessrClubAPI =
  session :: http_session

record env =
  getenv_NCFA_TOKEN :: "string option"
  session_get :: "http_session \<Rightarrow> event list \<Rightarrow> string \<Rightarrow> error + response"
  py_str :: "json \<Rightarrow> string"

definition BASE_URL :: string where
  "BASE_URL = ''https://www.geoguessr.com/api''"

text \<open>\<^verbatim>\<open>not ncfa_token\<close> for an optional string: \<^verbatim>\<open>None\<close> and \<^verbatim>\<open>""\<close> are falsy.\<close>

definition token_truthy :: "string option \<Rightarrow> bool" where
  "token_truthy t = (case t of None \<Rightarrow> False | Some s \<Rightarrow> s \<noteq> [])"

definition GeoGuessrClubAPI_init ::
  "env \<Rightarrow> string option \<Rightarrow> event list \<Rightarrow> (error + GeoGuessrClubAPI) \<times> event list" where
  "GeoGuessrClubAPI_init e ncfa_token tr =
     (let ncfa_token = (if \<not> token_truthy ncfa_token then getenv_NCFA_TOKEN e else ncfa_token)
      in case ncfa_token of
           None \<Rightarrow> (Inl ValueError, tr)
         | Some tok \<Rightarrow>
             if tok = [] then (Inl ValueError, tr)
             else (Inr \<lparr> session =
                          \<lparr> cookies = [(''_ncfa'', tok, ''www.geoguessr.com'')],
                            headers = [(''User-Agent'', ''GeoStatsClub/1.0''),
                                       (''Accept'', ''application/json'')] \<rparr> \<rparr>,
                   tr @ [SessionCreated]))"

text \<open>
  \<^verbatim>\<open>_get(path, raise_on_error)\<close>. The exception
  \<^verbatim>\<open>Exception(f"Failed to fetch {path}: HTTP {resp.status_code}")\<close> is represented by the
  two values its message is built from.
\<close>

definition api_get ::
  "env \<Rightarrow> GeoGuessrClubAPI \<Rightarrow> string \<Rightarrow> bool \<Rightarrow> event list \<Rightarrow> (error + json) \<times> event list" where
  "api_get e self path raise_on_error tr =
     (let url = BASE_URL @ path;
          tr' = tr @ [HttpGet url]
      in case session_get e (session self) tr url of
           Inl err \<Rightarrow> (Inl err, tr')
         | Inr resp \<Rightarrow>
             if status_code resp = 200 then
               (case json_body resp of
                  Some j \<Rightarrow> (Inr j, tr')
                | None \<Rightarrow> (Inl JSONDecodeError, tr'))
             else if raise_on_error then (Inl (Exception path (status_code resp)), tr')
             else (Inr JNull, tr'))"

text \<open>A value inside an f-string: a string is inserted as it is.\<close>

definition str_fmt :: "env \<Rightarrow> json \<Rightarrow> string" where
  "str_fmt e v = (case v of JStr s \<Rightarrow> s | _ \<Rightarrow> py_str e v)"

definition get_profile ::
  "env \<Rightarrow> GeoGuessrClubAPI \<Rightarrow> event list \<Rightarrow> (error + json) \<times> event list" where
  "get_profile e self tr = api_get e self ''/v3/profiles'' True tr"

definition get_club_members ::
  "env \<Rightarrow> GeoGuessrClubAPI \<Rightarrow> json \<Rightarrow> event list \<Rightarrow> (error + json) \<times> event list" where
  "get_club_members e self club_id tr =
     api_get e self (''/v4/clubs/'' @ str_fmt e club_id @ ''/members'') True tr"

definition get_user_stats ::
  "env \<Rightarrow> GeoGuessrClubAPI \<Rightarrow> json \<Rightarrow> event list \<Rightarrow> (error + json) \<times> event list" where
  "get_user_stats e self uid tr =
     api_get e self (''/v4/stats/users/'' @ str_fmt e uid) False tr"

definition get_user_peak_rating ::
  "env \<Rightarrow> GeoGuessrClubAPI \<Rightarrow> json \<Rightarrow> event list \<Rightarrow> (error + json) \<times> event list" where
  "get_user_peak_rating e self uid tr =
     api_get e self (''/v4/ranked-system/peak-rating/'' @ str_fmt e uid) False tr"

section \<open>Export and the main program\<close>

text \<open>
  \<^verbatim>\<open>export_members_to_csv\<close>: the rows are \<^verbatim>\<open>[m.to_dict() for m in members]\<close>; the
  first member whose \<^verbatim>\<open>to_dict\<close> raises ends the comprehension. Building the data
  frame and writing the file is one event holding the file name and the rows.
\<close>

fun to_dict_all :: "ClubMember list \<Rightarrow> error + dict list" where
  "to_dict_all [] = Inr []"
| "to_dict_all (m # ms) =
     (case to_dict m of
        Inl err \<Rightarrow> Inl err
      | Inr row \<Rightarrow> (case to_dict_all ms of Inl err \<Rightarrow> Inl err | Inr rows \<Rightarrow> Inr (row # rows)))"

definition export_members_to_csv ::
  "ClubMember list \<Rightarrow> string \<Rightarrow> event list \<Rightarrow> (error + unit) \<times> event list" where
  "export_members_to_csv members filename tr =
     (case to_dict_all members of
        Inl err \<Rightarrow> (Inl err, tr)
      | Inr rows \<Rightarrow> (Inr (), tr @ [CsvWritten filename rows, Printed]))"

text \<open>
  \<^verbatim>\<open>profile.get("user", {}).get("club", {}).get("clubId")\<close>
\<close>

definition profile_club_id :: "json \<Rightarrow> error + json" where
  "profile_club_id profile =
     (case py_get profile ''user'' (JDict []) of
        Inl err \<Rightarrow> Inl err
      | Inr u \<Rightarrow>
          (case py_get u ''club'' (JDict []) of
             Inl err \<Rightarrow> Inl err
           | Inr c \<Rightarrow> py_get c ''clubId'' JNull))"

text \<open>
  \<^verbatim>\<open>for m in members_json\<close>: a list yields its elements, a dict its keys, a string its
  characters; the other values are not iterable.
\<close>

definition py_iter :: "json \<Rightarrow> error + json list" where
  "py_iter x =
     (case x of
        JList xs \<Rightarrow> Inr xs
      | JDict d \<Rightarrow> Inr (map (\<lambda>(k, v). JStr k) d)
      | JStr s \<Rightarrow> Inr (map (\<lambda>c. JStr [c]) s)
      | _ \<Rightarrow> Inl TypeError)"

text \<open>\<^verbatim>\<open>[ClubMember(m) for m in members_json]\<close>\<close>

fun ClubMember_init_all :: "json list \<Rightarrow> error + ClubMember list" where
  "ClubMember_init_all [] = Inr []"
| "ClubMember_init_all (x # xs) =
     (case ClubMember_init x of
        Inl err \<Rightarrow> Inl err
      | Inr m \<Rightarrow>
          (case ClubMember_init_all xs of Inl err \<Rightarrow> Inl err | Inr ms \<Rightarrow> Inr (m # ms)))"

text \<open>
  The loop over the members: two tolerant fetches, the two updates, a progress line and
  the pause. The members are updated in place; the model returns them updated.
\<close>

fun fetch_all ::
  "env \<Rightarrow> GeoGuessrClubAPI \<Rightarrow> ClubMember list \<Rightarrow> event list
     \<Rightarrow> (error + ClubMember list) \<times> event list" where
  "fetch_all e api [] tr = (Inr [], tr)"
| "fetch_all e api (member # rest) tr =
     (case get_user_stats e api (user_id member) tr of
        (Inl err, tr1) \<Rightarrow> (Inl err, tr1)
      | (Inr st, tr1) \<Rightarrow>
          (let member1 = update_stats member st
           in case get_user_peak_rating e api (user_id member1) tr1 of
                (Inl err, tr2) \<Rightarrow> (Inl err, tr2)
              | (Inr rating, tr2) \<Rightarrow>
                  (let member2 = update_peak_rating member1 rating
                   in case fetch_all e api rest (tr2 @ [Printed, Slept]) of
                        (Inl err, tr3) \<Rightarrow> (Inl err, tr3)
                      | (Inr rest', tr3) \<Rightarrow> (Inr (member2 # rest'), tr3))))"

text \<open>The body of \<^verbatim>\<open>if __name__ == "__main__"\<close>, started with an empty trace.\<close>

definition main :: "env \<Rightarrow> (error + unit) \<times> event list" where
  "main e =
     (case GeoGuessrClubAPI_init e None [] of
        (Inl err, tr0) \<Rightarrow> (Inl err, tr0)
      | (Inr api, tr0) \<Rightarrow>
     (case get_profile e api tr0 of
        (Inl err, tr1) \<Rightarrow> (Inl err, tr1)
      | (Inr profile, tr1) \<Rightarrow>
     (case profile_club_id profile of
        Inl err \<Rightarrow> (Inl err, tr1)
      | Inr CLUB_ID \<Rightarrow>
     if \<not> truthy CLUB_ID then (Inl ValueError, tr1)
     else
     (case get_club_members e api CLUB_ID tr1 of
        (Inl err, tr2) \<Rightarrow> (Inl err, tr2)
      | (Inr members_json, tr2) \<Rightarrow>
     (case py_iter members_json of
        Inl err \<Rightarrow> (Inl err, tr2)
      | Inr entries \<Rightarrow>
     (case ClubMember_init_all entries of
        Inl err \<Rightarrow> (Inl err, tr2)
      | Inr members \<Rightarrow>
     (case fetch_all e api members (tr2 @ [Printed]) of
        (Inl err, tr3) \<Rightarrow> (Inl err, tr3)
      | (Inr members', tr3) \<Rightarrow>
          export_members_to_csv members' ''club_members_with_all_stats.csv'' tr3)))))))"

section \<open>Predicates used by the properties\<close>

text \<open>A one-level mapping: no value is itself a dict.\<close>

fun is_dict :: "json \<Rightarrow> bool" where
  "is_dict (JDict d) = True"
| "is_dict v = False"

definition one_level :: "dict \<Rightarrow> bool" where
  "one_level d = list_all (\<lambda>(k, v). \<not> is_dict v) d"

section \<open>Properties of \<open>dict\<close> construction\<close>

lemma update_fresh: "k \<notin> fst ` set d \<Longrightarrow> AList.update k v d = d @ [(k, v)]"
  by (induction d) auto

lemma dict_update_Nil: "dict_update d [] = d"
  by (simp add: dict_update_def)

lemma dict_update_Cons: "dict_update d ((k, v) # items) = dict_update (AList.update k v d) items"
  by (simp add: dict_update_def)

lemma dict_update_distinct_append:
  "distinct (map fst (d @ items)) \<Longrightarrow> dict_update d items = d @ items"
proof (induction items arbitrary: d)
  case Nil
  then show ?case by (simp add: dict_update_Nil)
next
  case (Cons kv items)
  obtain k v where kv: "kv = (k, v)" by (cases kv)
  from Cons.prems kv have fresh: "k \<notin> fst ` set d" by auto
  from Cons.prems kv have "distinct (map fst ((d @ [(k, v)]) @ items))" by auto
  then have "dict_update (d @ [(k, v)]) items = (d @ [(k, v)]) @ items"
    by (rule Cons.IH)
  with fresh kv show ?case by (simp add: dict_update_Cons update_fresh)
qed

lemma py_dict_distinct: "distinct (map fst items) \<Longrightarrow> py_dict items = items"
  using dict_update_distinct_append [of "[]" items] by (simp add: py_dict_def)

lemma map_of_dict_update:
  "map_of (dict_update d items) = map_of d ++ map_of (rev items)"
proof (induction items arbitrary: d)
  case Nil
  then show ?case by (simp add: dict_update_Nil)
next
  case (Cons kv items)
  obtain k v where kv: "kv = (k, v)" by (cases kv)
  have "map_of (dict_update d (kv # items)) = map_of (AList.update k v d) ++ map_of (rev items)"
    by (simp add: kv dict_update_Cons Cons.IH)
  also have "\<dots> = map_of d ++ map_of (rev (kv # items))"
    by (simp add: kv update_conv' map_add_upd_left fun_eq_iff map_add_def split: option.splits)
  finally show ?case .
qed

lemma keys_dict_update:
  "fst ` set (dict_update d items) = fst ` set d \<union> fst ` set items"
proof (induction items arbitrary: d)
  case Nil
  then show ?case by (simp add: dict_update_Nil)
next
  case (Cons kv items)
  obtain k v where kv: "kv = (k, v)" by (cases kv)
  show ?case by (simp add: kv dict_update_Cons Cons.IH dom_update)
qed

lemma distinct_dict_update:
  "distinct (map fst d) \<Longrightarrow> distinct (map fst (dict_update d items))"
proof (induction items arbitrary: d)
  case Nil
  then show ?case by (simp add: dict_update_Nil)
next
  case (Cons kv items)
  obtain k v where kv: "kv = (k, v)" by (cases kv)
  show ?case using Cons.prems by (simp add: kv dict_update_Cons Cons.IH distinct_update)
qed

lemma length_dict_update_le: "length (dict_update d items) \<le> length d + length items"
proof (induction items arbitrary: d)
  case Nil
  then show ?case by (simp add: dict_update_Nil)
next
  case (Cons kv items)
  obtain k v where kv: "kv = (k, v)" by (cases kv)
  have "length (AList.update k v d) \<le> Suc (length d)"
    by (induction d) auto
  moreover have "length (dict_update (AList.update k v d) items) \<le> length (AList.update k v d) + length items"
    by (rule Cons.IH)
  ultimately show ?case by (simp add: kv dict_update_Cons)
qed

section \<open>Properties of the flattening\<close>

lemma distinct_flatten_dict: "distinct (map fst (flatten_dict d P sep))"
  by (simp add: py_dict_def distinct_dict_update)

lemma keys_flatten_dict: "fst ` set (flatten_dict d P sep) = fst ` set (flatten_items d P sep)"
  by (simp add: py_dict_def keys_dict_update)


lemma startswith_iff: "startswith s p \<longleftrightarrow> (\<exists>r. s = p @ r)"
proof
  assume "startswith s p"
  then have "s = p @ drop (length p) s"
    unfolding startswith_def by (metis append_take_drop_id)
  then show "\<exists>r. s = p @ r" ..
next
  assume "\<exists>r. s = p @ r"
  then show "startswith s p" by (auto simp: startswith_def)
qed

lemma flatten_items_one_level:
  "one_level d \<Longrightarrow> flatten_items d P sep = map (\<lambda>(k, v). (new_key P sep k, v)) d"
proof (induction d)
  case Nil
  then show ?case by simp
next
  case (Cons kv d)
  obtain k v where kv: "kv = (k, v)" by (cases kv)
  from Cons.prems kv have v: "\<not> is_dict v" and d: "one_level d"
    by (simp_all add: one_level_def)
  from v have "(case v of JDict d' \<Rightarrow> flatten_dict d' (new_key P sep k) sep
                 | _ \<Rightarrow> [(new_key P sep k, v)]) = [(new_key P sep k, v)]"
    by (cases v) simp_all
  with Cons.IH [OF d] kv show ?case by simp
qed

lemma new_key_keys:
  "distinct (map fst d) \<Longrightarrow> distinct (map fst (map (\<lambda>(k, v). (new_key P sep k, v)) d))"
proof -
  have eq: "map fst (map (\<lambda>(k, v). (new_key P sep k, v)) d) = map (new_key P sep) (map fst d)"
    by (induction d) auto
  have inj: "inj (new_key P sep)"
    by (rule injI) (simp add: new_key_def split: if_splits)
  have "distinct (map (new_key P sep) ks)" if "distinct ks" for ks
    using that inj by (auto simp: distinct_map intro: inj_on_subset)
  then show "distinct (map fst d) \<Longrightarrow> ?thesis"
    unfolding eq by blast
qed

lemma flatten_keys_prefix:
  "(P \<noteq> [] \<longrightarrow> (\<forall>kv \<in> set (flatten_items d P sep). startswith (fst kv) P))"
  "(P \<noteq> [] \<longrightarrow> (\<forall>kv \<in> set (flatten_dict d P sep). startswith (fst kv) P))"
proof (induction d P sep and d P sep rule: flatten_items_flatten_dict.induct)
  case (1 parent_key sep)
  then show ?case by simp
next
  case (2 k v rest parent_key sep)
  show ?case
  proof (intro impI ballI)
    fix kv
    assume ne: "parent_key \<noteq> []"
      and mem: "kv \<in> set (flatten_items ((k, v) # rest) parent_key sep)"
    have nk: "new_key parent_key sep k = parent_key @ sep @ k"
      using ne by (simp add: new_key_def)
    from mem consider
        (head) "kv \<in> set (case v of JDict d' \<Rightarrow> flatten_dict d' (new_key parent_key sep k) sep
                                | _ \<Rightarrow> [(new_key parent_key sep k, v)])"
      | (tail) "kv \<in> set (flatten_items rest parent_key sep)"
      by auto
    then show "startswith (fst kv) parent_key"
    proof cases
      case head
      show ?thesis
      proof (cases v)
        case (JDict d')
        with head have "kv \<in> set (flatten_dict d' (new_key parent_key sep k) sep)" by simp
        moreover have "new_key parent_key sep k \<noteq> []" using ne nk by simp
        ultimately have "startswith (fst kv) (new_key parent_key sep k)"
          using "2.IH"(1) [OF JDict] by blast
        then show ?thesis unfolding nk startswith_iff by auto
      qed (use head nk in \<open>auto simp: startswith_iff\<close>)
    next
      case tail
      with "2.IH"(2) ne show ?thesis by blast
    qed
  qed
next
  case (3 d parent_key sep)
  have "set (flatten_dict d parent_key sep) \<subseteq> set (flatten_dict d parent_key sep)" by simp
  have "fst ` set (flatten_dict d parent_key sep) = fst ` set (flatten_items d parent_key sep)"
    by (rule keys_flatten_dict)
  with 3 show ?case by (metis (no_types, lifting) imageE imageI)
qed

lemma startswith_first: "startswith k (c # p) \<Longrightarrow> \<exists>r. k = c # r"
  by (auto simp: startswith_iff)

lemma section_keys_disjoint:
  assumes "c \<noteq> c'"
  shows "fst ` set (flatten_dict d (c # p) sep) \<inter> fst ` set (flatten_dict d' (c' # p') sep') = {}"
proof (rule ccontr)
  assume "\<not> ?thesis"
  then obtain kv kv' where kv: "kv \<in> set (flatten_dict d (c # p) sep)"
    and kv': "kv' \<in> set (flatten_dict d' (c' # p') sep')" and eq: "fst kv = fst kv'"
    by auto
  from kv have "startswith (fst kv) (c # p)"
    using flatten_keys_prefix(2) [of "c # p" d sep] by simp
  moreover from kv' have "startswith (fst kv') (c' # p')"
    using flatten_keys_prefix(2) [of "c' # p'" d' sep'] by simp
  ultimately show False using eq assms by (auto dest!: startswith_first)
qed

section \<open>Properties of the request function\<close>

lemma api_get_result:
  "session_get e (session self) tr (BASE_URL @ path) = Inr resp \<Longrightarrow>
   api_get e self path raise_on_error tr =
     ((if status_code resp = 200
       then (case json_body resp of Some j \<Rightarrow> Inr j | None \<Rightarrow> Inl JSONDecodeError)
       else if raise_on_error then Inl (Exception path (status_code resp)) else Inr JNull),
      tr @ [HttpGet (BASE_URL @ path)])"
  by (simp add: api_get_def Let_def split: option.splits)

text \<open>
  The main program with a credential and a profile answered with status 200: when the
  chained lookup of the club identifier raises, or yields a falsy value, the run ends
  after the profile request, and in the second case with \<^verbatim>\<open>ValueError\<close>.
\<close>

lemma main_stops_without_club_id:
  assumes tok: "getenv_NCFA_TOKEN e = Some t" "t \<noteq> []"
    and resp: "session_get e
                 \<lparr> cookies = [(''_ncfa'', t, ''www.geoguessr.com'')],
                   headers = [(''User-Agent'', ''GeoStatsClub/1.0''),
                              (''Accept'', ''application/json'')] \<rparr>
                 [SessionCreated] (BASE_URL @ ''/v3/profiles'') = Inr r"
    and ok: "status_code r = 200" "json_body r = Some profile"
    and no_id: "profile_club_id profile = Inl err
                \<or> (\<exists>cid. profile_club_id profile = Inr cid \<and> \<not> truthy cid)"
  shows "snd (main e) = [SessionCreated, HttpGet (BASE_URL @ ''/v3/profiles'')]"
    and "(\<exists>cid. profile_club_id profile = Inr cid) \<Longrightarrow> fst (main e) = Inl ValueError"
proof -
  have init: "GeoGuessrClubAPI_init e None [] =
      (Inr \<lparr> session = \<lparr> cookies = [(''_ncfa'', t, ''www.geoguessr.com'')],
                headers = [(''User-Agent'', ''GeoStatsClub/1.0''),
                           (''Accept'', ''application/json'')] \<rparr> \<rparr>, [SessionCreated])"
    using tok by (simp add: GeoGuessrClubAPI_init_def token_truthy_def)
  have prof: "get_profile e
      \<lparr> session = \<lparr> cookies = [(''_ncfa'', t, ''www.geoguessr.com'')],
                headers = [(''User-Agent'', ''GeoStatsClub/1.0''),
                           (''Accept'', ''application/json'')] \<rparr> \<rparr> [SessionCreated]
      = (Inr profile, [SessionCreated, HttpGet (BASE_URL @ ''/v3/profiles'')])"
    using resp ok by (simp add: get_profile_def api_get_result)
  show "snd (main e) = [SessionCreated, HttpGet (BASE_URL @ ''/v3/profiles'')]"
    using no_id by (auto simp: main_def init prof)
  show "fst (main e) = Inl ValueError" if "\<exists>cid. profile_club_id profile = Inr cid"
    using no_id that by (auto simp: main_def init prof)
qed

section \<open>The claims\<close>

subsection \<open>C1: flattening a one-level mapping\<close>

text \<open>
  C1. For a dict \<open>d\<close> (distinct keys) none of whose values is a dict, and every
  non-empty prefix \<open>P\<close>, \<^verbatim>\<open>flatten_dict(d, parent_key=P)\<close> is the dict binding
  \<open>P\<close>, the separator and \<open>k\<close> to \<open>v\<close> for each pair \<open>(k, v)\<close> of \<open>d\<close>, in the
  order of \<open>d\<close>; with the empty prefix the result is \<open>d\<close> itself. This holds for
  every separator, the default \<^verbatim>\<open>'.'\<close> included.
\<close>

theorem flatten_dict_one_level:
  assumes "distinct (map fst d)" and "one_level d"
  shows "(P \<noteq> [] \<longrightarrow> flatten_dict d P sep = map (\<lambda>(k, v). (P @ sep @ k, v)) d)
         \<and> flatten_dict d [] sep = d"
proof -
  have flat: "flatten_dict d Q sep = map (\<lambda>(k, v). (new_key Q sep k, v)) d" for Q
    using assms by (simp add: flatten_items_one_level py_dict_distinct new_key_keys del: map_map)
  have "map (\<lambda>(k, v). (new_key [] sep k, v)) d = d"
    by (induction d) (auto simp: new_key_def)
  moreover have "P \<noteq> [] \<Longrightarrow> map (\<lambda>(k, v). (new_key P sep k, v)) d = map (\<lambda>(k, v). (P @ sep @ k, v)) d"
    by (simp add: new_key_def)
  ultimately show ?thesis using flat by metis
qed

theorem flatten_dict_one_level_witness:
  "distinct (map fst [(''a'', JInt 1), (''b'', JStr ''x'')])
   \<and> one_level [(''a'', JInt 1), (''b'', JStr ''x'')]
   \<and> flatten_dict [(''a'', JInt 1), (''b'', JStr ''x'')] ''P'' ''.''
       = [(''P.a'', JInt 1), (''P.b'', JStr ''x'')]
   \<and> flatten_dict [(''a'', JInt 1), (''b'', JStr ''x'')] [] ''.''
       = [(''a'', JInt 1), (''b'', JStr ''x'')]"
  using flatten_dict_one_level [of "[(''a'', JInt 1), (''b'', JStr ''x'')]" "''P''" "''.''"]
  by (simp add: one_level_def)

subsection \<open>C2: the four sections do not collide\<close>

text \<open>
  C2. For every member whose \<^verbatim>\<open>stats\<close> and \<^verbatim>\<open>peak_rating\<close> are dicts, the four
  flattened sections computed in \<^verbatim>\<open>to_dict\<close> (prefixes \<^verbatim>\<open>user\<close>,
  \<^verbatim>\<open>membership\<close>, \<^verbatim>\<open>stats\<close>, \<^verbatim>\<open>peakRating\<close>) have pairwise disjoint key
  sets, and the merged dict that \<^verbatim>\<open>to_dict\<close> returns is the four sections one after
  the other: no binding of any section is lost or overwritten.
\<close>

theorem to_dict_sections_disjoint:
  assumes "stats m = JDict s" and "peak_rating m = JDict p"
  shows "fst ` set (flatten_dict (raw_user m) ''user'' ''.'')
           \<inter> fst ` set (flatten_dict (raw_membership m) ''membership'' ''.'') = {}
       \<and> fst ` set (flatten_dict (raw_user m) ''user'' ''.'')
           \<inter> fst ` set (flatten_dict s ''stats'' ''.'') = {}
       \<and> fst ` set (flatten_dict (raw_user m) ''user'' ''.'')
           \<inter> fst ` set (flatten_dict p ''peakRating'' ''.'') = {}
       \<and> fst ` set (flatten_dict (raw_membership m) ''membership'' ''.'')
           \<inter> fst ` set (flatten_dict s ''stats'' ''.'') = {}
       \<and> fst ` set (flatten_dict (raw_membership m) ''membership'' ''.'')
           \<inter> fst ` set (flatten_dict p ''peakRating'' ''.'') = {}
       \<and> fst ` set (flatten_dict s ''stats'' ''.'')
           \<inter> fst ` set (flatten_dict p ''peakRating'' ''.'') = {}
       \<and> to_dict m = Inr (flatten_dict (raw_user m) ''user'' ''.''
                          @ flatten_dict (raw_membership m) ''membership'' ''.''
                          @ flatten_dict s ''stats'' ''.''
                          @ flatten_dict p ''peakRating'' ''.'')"
proof -
  define U where "U = flatten_dict (raw_user m) ''user'' ''.''"
  define M where "M = flatten_dict (raw_membership m) ''membership'' ''.''"
  define S where "S = flatten_dict s ''stats'' ''.''"
  define R where "R = flatten_dict p ''peakRating'' ''.''"
  have UM: "fst ` set U \<inter> fst ` set M = {}"
    unfolding U_def M_def by (rule section_keys_disjoint) simp
  have US: "fst ` set U \<inter> fst ` set S = {}"
    unfolding U_def S_def by (rule section_keys_disjoint) simp
  have UR: "fst ` set U \<inter> fst ` set R = {}"
    unfolding U_def R_def by (rule section_keys_disjoint) simp
  have MS: "fst ` set M \<inter> fst ` set S = {}"
    unfolding M_def S_def by (rule section_keys_disjoint) simp
  have MR: "fst ` set M \<inter> fst ` set R = {}"
    unfolding M_def R_def by (rule section_keys_disjoint) simp
  have SR: "fst ` set S \<inter> fst ` set R = {}"
    unfolding S_def R_def by (rule section_keys_disjoint) simp
  have dU: "distinct (map fst U)" and dM: "distinct (map fst M)"
    and dS: "distinct (map fst S)" and dR: "distinct (map fst R)"
    unfolding U_def M_def S_def R_def by (rule distinct_flatten_dict)+
  have 1: "py_dict U = U" using dU by (rule py_dict_distinct)
  have 2: "dict_update U M = U @ M"
    using dU dM UM by (intro dict_update_distinct_append) simp
  have 3: "dict_update (U @ M) S = (U @ M) @ S"
    using dU dM dS UM US MS by (intro dict_update_distinct_append) (simp add: Int_Un_distrib Int_Un_distrib2)
  have 4: "dict_update ((U @ M) @ S) R = ((U @ M) @ S) @ R"
    using dU dM dS dR UM US UR MS MR SR
    by (intro dict_update_distinct_append) (simp add: Int_Un_distrib Int_Un_distrib2)
  have "to_dict m = Inr (dict_update (dict_update (dict_update (py_dict U) M) S) R)"
    using assms by (simp add: to_dict_def U_def M_def S_def R_def Let_def)
  also have "dict_update (dict_update (dict_update (py_dict U) M) S) R = ((U @ M) @ S) @ R"
    by (simp only: 1 2 3 4)
  finally have "to_dict m = Inr (U @ M @ S @ R)"
    by simp
  with UM US UR MS MR SR show ?thesis
    unfolding U_def M_def S_def R_def by blast
qed

theorem to_dict_sections_disjoint_witness:
  "to_dict \<lparr> raw_membership = [(''role'', JStr ''admin'')],
             raw_user = [(''nick'', JStr ''Alice'')],
             user_id = JStr ''u1'',
             stats = JDict [(''verified'', JDict [(''distance'', JInt 1200)])],
             peak_rating = JDict [(''rating'', JInt 900)] \<rparr>
   = Inr [(''user.nick'', JStr ''Alice''), (''membership.role'', JStr ''admin''),
          (''stats.verified.distance'', JInt 1200), (''peakRating.rating'', JInt 900)]"
  using to_dict_sections_disjoint
    [of "\<lparr> raw_membership = [(''role'', JStr ''admin'')],
             raw_user = [(''nick'', JStr ''Alice'')],
             user_id = JStr ''u1'',
             stats = JDict [(''verified'', JDict [(''distance'', JInt 1200)])],
             peak_rating = JDict [(''rating'', JInt 900)] \<rparr>"
        "[(''verified'', JDict [(''distance'', JInt 1200)])]"
        "[(''rating'', JInt 900)]"]
  by (simp add: py_dict_def dict_update_def new_key_def)

subsection \<open>C3: the scenario of one member\<close>

text \<open>
  C3. The member built from
  \<^verbatim>\<open>{"user": {"userId": "u1", "nick": "Alice"}, "role": "admin"}\<close>, after
  \<^verbatim>\<open>update_stats({"verified": {"distance": 1200}})\<close> and
  \<^verbatim>\<open>update_peak_rating(None)\<close>, has as \<^verbatim>\<open>to_dict()\<close> exactly the four bindings
  \<^verbatim>\<open>user.userId\<close>, \<^verbatim>\<open>user.nick\<close>, \<^verbatim>\<open>membership.role\<close> and
  \<^verbatim>\<open>stats.verified.distance\<close>; none of its keys starts with \<^verbatim>\<open>peakRating\<close>.
\<close>

theorem scenario_alice:
  "(case ClubMember_init (JDict [(''user'', JDict [(''userId'', JStr ''u1''), (''nick'', JStr ''Alice'')]),
                                 (''role'', JStr ''admin'')]) of
      Inl err \<Rightarrow> Inl err
    | Inr member \<Rightarrow>
        to_dict (update_peak_rating
                   (update_stats member (JDict [(''verified'', JDict [(''distance'', JInt 1200)])]))
                   JNull))
   = Inr [(''user.userId'', JStr ''u1''), (''user.nick'', JStr ''Alice''),
          (''membership.role'', JStr ''admin''), (''stats.verified.distance'', JInt 1200)]
   \<and> filter (\<lambda>(k, v). startswith k ''peakRating'')
        [(''user.userId'', JStr ''u1''), (''user.nick'', JStr ''Alice''),
         (''membership.role'', JStr ''admin''), (''stats.verified.distance'', JInt 1200)] = []"
  by (simp add: ClubMember_init_def dict_get_def update_stats_def update_peak_rating_def
      py_or_def to_dict_def py_dict_def dict_update_def new_key_def startswith_def)

subsection \<open>C4: updates never store None\<close>

text \<open>
  C4. For a member in any state, \<^verbatim>\<open>update_stats(None)\<close> leaves \<^verbatim>\<open>stats\<close> equal to
  the empty dict and \<^verbatim>\<open>update_peak_rating(None)\<close> leaves \<^verbatim>\<open>peak_rating\<close> equal to
  the empty dict; whatever the argument, the field is not \<^verbatim>\<open>None\<close> after the update.
\<close>

theorem update_none_gives_empty:
  "stats (update_stats m JNull) = JDict []
   \<and> peak_rating (update_peak_rating m JNull) = JDict []
   \<and> stats (update_stats m x) \<noteq> JNull
   \<and> peak_rating (update_peak_rating m x) \<noteq> JNull"
  by (cases x) (simp_all add: update_stats_def update_peak_rating_def py_or_def)

subsection \<open>C5: the tolerant endpoints\<close>

text \<open>
  C5. For every user id and every response that the server gives, \<^verbatim>\<open>get_user_stats\<close>
  and \<^verbatim>\<open>get_user_peak_rating\<close> return \<^verbatim>\<open>None\<close> without raising when the status is
  not 200, and return what \<^verbatim>\<open>resp.json()\<close> gives when the status is 200 (the parsed
  body, or the decoding error of a body that is not JSON).
\<close>

theorem soft_fetch_returns_null:
  "(session_get e (session self) tr (BASE_URL @ ''/v4/stats/users/'' @ str_fmt e uid) = Inr resp
      \<longrightarrow> fst (get_user_stats e self uid tr) =
            (if status_code resp = 200
             then (case json_body resp of Some j \<Rightarrow> Inr j | None \<Rightarrow> Inl JSONDecodeError)
             else Inr JNull))
   \<and> (session_get e (session self) tr
         (BASE_URL @ ''/v4/ranked-system/peak-rating/'' @ str_fmt e uid) = Inr resp'
      \<longrightarrow> fst (get_user_peak_rating e self uid tr) =
            (if status_code resp' = 200
             then (case json_body resp' of Some j \<Rightarrow> Inr j | None \<Rightarrow> Inl JSONDecodeError)
             else Inr JNull))"
  by (simp add: get_user_stats_def get_user_peak_rating_def api_get_result)

theorem soft_fetch_returns_null_witness:
  "fst (get_user_stats
         \<lparr> getenv_NCFA_TOKEN = None,
           session_get = (\<lambda>s tr url. Inr \<lparr> status_code = 404, json_body = None \<rparr>),
           py_str = (\<lambda>v. []) \<rparr>
         \<lparr> session = \<lparr> cookies = [], headers = [] \<rparr> \<rparr> (JStr ''u1'') []) = Inr JNull
   \<and> fst (get_user_peak_rating
         \<lparr> getenv_NCFA_TOKEN = None,
           session_get = (\<lambda>s tr url. Inr \<lparr> status_code = 404, json_body = None \<rparr>),
           py_str = (\<lambda>v. []) \<rparr>
         \<lparr> session = \<lparr> cookies = [], headers = [] \<rparr> \<rparr> (JStr ''u1'') []) = Inr JNull
   \<and> fst (get_user_stats
         \<lparr> getenv_NCFA_TOKEN = None,
           session_get = (\<lambda>s tr url.
              Inr \<lparr> status_code = 200, json_body = Some (JDict [(''elo'', JInt 7)]) \<rparr>),
           py_str = (\<lambda>v. []) \<rparr>
         \<lparr> session = \<lparr> cookies = [], headers = [] \<rparr> \<rparr> (JStr ''u1'') [])
       = Inr (JDict [(''elo'', JInt 7)])"
  using soft_fetch_returns_null
    [of "\<lparr> getenv_NCFA_TOKEN = None,
           session_get = (\<lambda>s tr url. Inr \<lparr> status_code = 404, json_body = None \<rparr>),
           py_str = (\<lambda>v. []) \<rparr>"
        "\<lparr> session = \<lparr> cookies = [], headers = [] \<rparr> \<rparr>" "[]" "JStr ''u1''"
        "\<lparr> status_code = 404, json_body = None \<rparr>"
        "\<lparr> status_code = 404, json_body = None \<rparr>"]
    soft_fetch_returns_null
    [of "\<lparr> getenv_NCFA_TOKEN = None,
           session_get = (\<lambda>s tr url.
              Inr \<lparr> status_code = 200, json_body = Some (JDict [(''elo'', JInt 7)]) \<rparr>),
           py_str = (\<lambda>v. []) \<rparr>"
        "\<lparr> session = \<lparr> cookies = [], headers = [] \<rparr> \<rparr>" "[]" "JStr ''u1''"
        "\<lparr> status_code = 200, json_body = Some (JDict [(''elo'', JInt 7)]) \<rparr>"
        "\<lparr> status_code = 200, json_body = Some (JDict [(''elo'', JInt 7)]) \<rparr>"]
  by simp

subsection \<open>C6: the mandatory endpoints\<close>

text \<open>
  C6. For every response that the server gives (and every club id), \<^verbatim>\<open>get_profile\<close>
  and \<^verbatim>\<open>get_club_members\<close> raise the request exception, carrying the path and the
  status, exactly when the status is not 200, and return what \<^verbatim>\<open>resp.json()\<close> gives
  when it is 200; on a status other than 200 they return no value at all.
\<close>

theorem mandatory_fetch_raises:
  "(session_get e (session self) tr (BASE_URL @ ''/v3/profiles'') = Inr resp
      \<longrightarrow> fst (get_profile e self tr) =
            (if status_code resp = 200
             then (case json_body resp of Some j \<Rightarrow> Inr j | None \<Rightarrow> Inl JSONDecodeError)
             else Inl (Exception ''/v3/profiles'' (status_code resp)))
          \<and> ((\<exists>path code. fst (get_profile e self tr) = Inl (Exception path code))
               \<longleftrightarrow> status_code resp \<noteq> 200))
   \<and> (session_get e (session self) tr
         (BASE_URL @ ''/v4/clubs/'' @ str_fmt e club_id @ ''/members'') = Inr resp'
      \<longrightarrow> fst (get_club_members e self club_id tr) =
            (if status_code resp' = 200
             then (case json_body resp' of Some j \<Rightarrow> Inr j | None \<Rightarrow> Inl JSONDecodeError)
             else Inl (Exception (''/v4/clubs/'' @ str_fmt e club_id @ ''/members'')
                         (status_code resp')))
          \<and> ((\<exists>path code. fst (get_club_members e self club_id tr) = Inl (Exception path code))
               \<longleftrightarrow> status_code resp' \<noteq> 200))"
  by (simp add: get_profile_def get_club_members_def api_get_result split: option.splits)

theorem mandatory_fetch_raises_witness:
  "fst (get_profile
         \<lparr> getenv_NCFA_TOKEN = None,
           session_get = (\<lambda>s tr url. Inr \<lparr> status_code = 500, json_body = Some JNull \<rparr>),
           py_str = (\<lambda>v. []) \<rparr>
         \<lparr> session = \<lparr> cookies = [], headers = [] \<rparr> \<rparr> [])
     = Inl (Exception ''/v3/profiles'' 500)
   \<and> fst (get_club_members
         \<lparr> getenv_NCFA_TOKEN = None,
           session_get = (\<lambda>s tr url. Inr \<lparr> status_code = 500, json_body = Some JNull \<rparr>),
           py_str = (\<lambda>v. []) \<rparr>
         \<lparr> session = \<lparr> cookies = [], headers = [] \<rparr> \<rparr> (JStr ''c1'') [])
     = Inl (Exception ''/v4/clubs/c1/members'' 500)"
  using mandatory_fetch_raises
    [of "\<lparr> getenv_NCFA_TOKEN = None,
           session_get = (\<lambda>s tr url. Inr \<lparr> status_code = 500, json_body = Some JNull \<rparr>),
           py_str = (\<lambda>v. []) \<rparr>"
        "\<lparr> session = \<lparr> cookies = [], headers = [] \<rparr> \<rparr>" "[]"
        "\<lparr> status_code = 500, json_body = Some JNull \<rparr>" "JStr ''c1''"
        "\<lparr> status_code = 500, json_body = Some JNull \<rparr>"]
  by (simp add: str_fmt_def)

subsection \<open>C7: construction without a credential\<close>

text \<open>
  C7. When the constructor argument and the environment variable are both absent (or
  empty), constructing the client raises \<^verbatim>\<open>ValueError\<close> and leaves the trace as it
  was: no session is created and no request is sent. The main program, which passes no
  argument, then ends with that error and an empty trace.
\<close>

theorem init_without_credential:
  assumes "\<not> token_truthy ncfa_token" and "\<not> token_truthy (getenv_NCFA_TOKEN e)"
  shows "GeoGuessrClubAPI_init e ncfa_token tr = (Inl ValueError, tr)
         \<and> main e = (Inl ValueError, [])"
proof -
  have init: "GeoGuessrClubAPI_init e t tr' = (Inl ValueError, tr')"
    if "\<not> token_truthy t" for t tr'
    using that assms(2)
    by (auto simp: GeoGuessrClubAPI_init_def token_truthy_def split: option.splits)
  have "token_truthy None = False" by (simp add: token_truthy_def)
  then have "GeoGuessrClubAPI_init e None [] = (Inl ValueError, [])"
    using init by simp
  then have "main e = (Inl ValueError, [])" by (simp add: main_def)
  with init [OF assms(1)] show ?thesis by simp
qed

theorem init_without_credential_witness:
  "GeoGuessrClubAPI_init
     \<lparr> getenv_NCFA_TOKEN = None,
       session_get = (\<lambda>s tr url. Inl ConnectionError),
       py_str = (\<lambda>v. []) \<rparr> None [] = (Inl ValueError, [])
   \<and> main \<lparr> getenv_NCFA_TOKEN = None,
            session_get = (\<lambda>s tr url. Inl ConnectionError),
            py_str = (\<lambda>v. []) \<rparr> = (Inl ValueError, [])"
  using init_without_credential
    [of None "\<lparr> getenv_NCFA_TOKEN = None,
               session_get = (\<lambda>s tr url. Inl ConnectionError),
               py_str = (\<lambda>v. []) \<rparr>" "[]"]
  by (simp add: token_truthy_def)

subsection \<open>C8: a profile without a club identifier\<close>

text \<open>
  C8. For the profile \<^verbatim>\<open>{"user": {"club": null}}\<close>, in which no club identifier can
  be reached at \<^verbatim>\<open>user.club.clubId\<close>, the chained \<^verbatim>\<open>get\<close> is applied to
  \<^verbatim>\<open>None\<close>: the main program ends with \<^verbatim>\<open>AttributeError\<close>, not with the
  \<^verbatim>\<open>ValueError\<close> that it raises for a missing club, after the profile request only.
  For \<^verbatim>\<open>{"user": {}}\<close> the extracted identifier is \<^verbatim>\<open>None\<close>, which the check
  \<^verbatim>\<open>if not CLUB_ID\<close> turns into the \<^verbatim>\<open>ValueError\<close>, again after the profile
  request only.
\<close>

theorem main_club_null_raises_AttributeError:
  "main \<lparr> getenv_NCFA_TOKEN = Some ''token'',
          session_get = (\<lambda>s tr url.
             Inr \<lparr> status_code = 200,
                   json_body = Some (JDict [(''user'', JDict [(''club'', JNull)])]) \<rparr>),
          py_str = (\<lambda>v. []) \<rparr>
   = (Inl AttributeError, [SessionCreated, HttpGet ''https://www.geoguessr.com/api/v3/profiles''])
   \<and> main \<lparr> getenv_NCFA_TOKEN = Some ''token'',
          session_get = (\<lambda>s tr url.
             Inr \<lparr> status_code = 200, json_body = Some (JDict [(''user'', JDict [])]) \<rparr>),
          py_str = (\<lambda>v. []) \<rparr>
   = (Inl ValueError, [SessionCreated, HttpGet ''https://www.geoguessr.com/api/v3/profiles''])
   \<and> profile_club_id (JDict [(''user'', JDict [(''club'', JNull)])]) = Inl AttributeError
   \<and> profile_club_id (JDict [(''user'', JDict [])]) = Inr JNull"
  by (simp add: main_def GeoGuessrClubAPI_init_def token_truthy_def get_profile_def api_get_def
      BASE_URL_def profile_club_id_def py_get_def dict_get_def)

subsection \<open>C9: two entries with the same dotted path\<close>

text \<open>
  C9. \<^verbatim>\<open>flatten_dict\<close> is total, and for every key its result holds the value of the
  pair emitted last with that key; it never has more bindings than pairs were emitted.
  For \<^verbatim>\<open>{"a.b": 1, "a": {"b": 2}}\<close> two pairs are emitted under the key \<^verbatim>\<open>a.b\<close> and
  the result keeps only the second one.
\<close>

theorem flatten_dict_last_binding_wins:
  "map_of (flatten_dict d P sep) = map_of (rev (flatten_items d P sep))
   \<and> length (flatten_dict d P sep) \<le> length (flatten_items d P sep)
   \<and> flatten_items [(''a.b'', JInt 1), (''a'', JDict [(''b'', JInt 2)])] [] ''.''
       = [(''a.b'', JInt 1), (''a.b'', JInt 2)]
   \<and> flatten_dict [(''a.b'', JInt 1), (''a'', JDict [(''b'', JInt 2)])] [] ''.''
       = [(''a.b'', JInt 2)]"
proof -
  have "map_of (flatten_dict d P sep) = map_of (rev (flatten_items d P sep))"
    by (simp add: py_dict_def map_of_dict_update)
  moreover have "length (flatten_dict d P sep) \<le> length (flatten_items d P sep)"
    using length_dict_update_le [of "[]" "flatten_items d P sep"] by (simp add: py_dict_def)
  moreover have "flatten_items [(''a.b'', JInt 1), (''a'', JDict [(''b'', JInt 2)])] [] ''.''
       = [(''a.b'', JInt 1), (''a.b'', JInt 2)]"
    by (simp add: py_dict_def dict_update_def new_key_def)
  moreover have "flatten_dict [(''a.b'', JInt 1), (''a'', JDict [(''b'', JInt 2)])] [] ''.''
       = [(''a.b'', JInt 2)]"
    by (simp add: py_dict_def dict_update_def new_key_def)
  ultimately show ?thesis by blast
qed

subsection \<open>C10: a membership entry without a user\<close>

text \<open>
  C10. Constructing a member from a dict without the key \<^verbatim>\<open>"user"\<close> succeeds: the
  user section is empty, \<^verbatim>\<open>user_id\<close> is the empty string, the membership section is
  the whole entry, and \<^verbatim>\<open>nick\<close> returns the empty string.
\<close>

theorem ClubMember_init_without_user:
  assumes "''user'' \<notin> fst ` set d"
  shows "ClubMember_init (JDict d)
           = Inr \<lparr> raw_membership = py_dict d, raw_user = [], user_id = JStr [],
                   stats = JDict [], peak_rating = JDict [] \<rparr>
         \<and> nick \<lparr> raw_membership = py_dict d, raw_user = [], user_id = JStr [],
                   stats = JDict [], peak_rating = JDict [] \<rparr> = JStr []"
proof -
  from assms have "map_of d ''user'' = None"
    by (simp add: map_of_eq_None_iff)
  moreover from assms have "filter (\<lambda>(k, v). k \<noteq> ''user'') d = d"
    by (induction d) auto
  ultimately show ?thesis
    by (simp add: ClubMember_init_def dict_get_def nick_def)
qed

theorem ClubMember_init_without_user_witness:
  "ClubMember_init (JDict [(''role'', JStr ''admin'')])
     = Inr \<lparr> raw_membership = [(''role'', JStr ''admin'')], raw_user = [], user_id = JStr [],
             stats = JDict [], peak_rating = JDict [] \<rparr>
   \<and> nick \<lparr> raw_membership = [(''role'', JStr ''admin'')], raw_user = [], user_id = JStr [],
             stats = JDict [], peak_rating = JDict [] \<rparr> = JStr []"
  using ClubMember_init_without_user [of "[(''role'', JStr ''admin'')]"]
  by (simp add: py_dict_def dict_update_def)

end
